theory Spec2Isabelle
  imports Main "HOL-Library.AList"
begin

section \<open>Values, documents and the outside world\<close>

text \<open>
  The program (\<^verbatim>\<open>main.py\<close>) is a set of HTTP handlers over two remote services: an
  identity provider (\<^verbatim>\<open>auth.create_user\<close>) and a document store (\<^verbatim>\<open>db\<close>). A field of
  a document is a text or a sequence of texts; a document is a Python dict from field
  names to values; a collection lists its documents with their identifiers, in the order
  in which the store streams them.
\<close>

datatype fval = Str string | StrList "string list"

type_synonym doc = "string \<rightharpoonup> fval"

type_synonym collection = "(string \<times> doc) list"

text \<open>
  The state outside the program: the accounts of the identity provider
  (identifier, email, password), the collections of the store by name, the outcome of
  each coming remote call (\<open>None\<close>: the call goes through, \<open>Some msg\<close>: the service raises
  an exception whose text is \<open>msg\<close>; an exhausted list means no further failure), and the
  identifiers that the services will issue next.
\<close>

record world =
  accounts :: "(string \<times> string \<times> string) list"
  db :: "string \<Rightarrow> collection"
  faults :: "string option list"
  id_supply :: "nat \<Rightarrow> string"

text \<open>
  A handler either returns a JSON value or raises: \<open>HTTPException status detail\<close> is the
  framework's exception, \<open>Upstream msg\<close> is any exception of a remote service. The state
  is returned in both cases, since what was written before an exception stays written.
\<close>

datatype exn = Upstream string | HTTPException nat string

datatype response = Obj doc | Arr "doc list"

type_synonym 'a io = "world \<Rightarrow> (exn + 'a) \<times> world"

definition io_return :: "'a \<Rightarrow> 'a io" where
  "io_return a w = (Inr a, w)"

definition io_raise :: "exn \<Rightarrow> 'a io" where
  "io_raise e w = (Inl e, w)"

definition io_bind :: "'a io \<Rightarrow> ('a \<Rightarrow> 'b io) \<Rightarrow> 'b io" where
  "io_bind m f w = (case m w of (Inl e, w') \<Rightarrow> (Inl e, w') | (Inr a, w') \<Rightarrow> f a w')"

text \<open>\<^verbatim>\<open>try: m  except Exception as e: h(e)\<close>\<close>

definition io_try :: "'a io \<Rightarrow> (exn \<Rightarrow> 'a io) \<Rightarrow> 'a io" where
  "io_try m h w = (case m w of (Inl e, w') \<Rightarrow> h e w' | (Inr a, w') \<Rightarrow> (Inr a, w'))"

text \<open>
  \<^verbatim>\<open>str(e)\<close>. Inside the \<^verbatim>\<open>try\<close> blocks of the program only the remote services raise,
  so the handlers only ever use the first equation.
\<close>

fun str_exn :: "exn \<Rightarrow> string" where
  "str_exn (Upstream msg) = msg"
| "str_exn (HTTPException status detail) = detail"

section \<open>The remote services\<close>

text \<open>A remote call consumes the next outcome of the schedule.\<close>

definition remote :: "'a io \<Rightarrow> 'a io" where
  "remote call w =
     (case faults w of
        [] \<Rightarrow> call w
      | None # fs \<Rightarrow> call (w\<lparr>faults := fs\<rparr>)
      | Some msg # fs \<Rightarrow> (Inl (Upstream msg), w\<lparr>faults := fs\<rparr>))"

text \<open>
  \<^verbatim>\<open>auth.create_user(email=, password=)\<close>: the provider refuses an email that already
  has an account; otherwise it records the account under an identifier of its choice.
\<close>

definition create_user :: "string \<Rightarrow> string \<Rightarrow> string io" where
  "create_user em pw = remote (\<lambda>w.
     if em \<in> set (map (\<lambda>(u, e, p). e) (accounts w)) then (Inl (Upstream ''EMAIL_EXISTS''), w)
     else (Inr (id_supply w 0),
           w\<lparr>accounts := accounts w @ [(id_supply w 0, em, pw)],
             id_supply := (\<lambda>n. id_supply w (Suc n))\<rparr>))"

text \<open>\<^verbatim>\<open>db.collection(c).document(i).get()\<close>: the snapshot, \<open>None\<close> when it does not exist.\<close>

definition doc_get :: "string \<Rightarrow> string \<Rightarrow> doc option io" where
  "doc_get c i = remote (\<lambda>w. (Inr (map_of (db w c) i), w))"

text \<open>\<^verbatim>\<open>.document(i).set(data)\<close>: creates or overwrites the whole document.\<close>

definition doc_set :: "string \<Rightarrow> string \<Rightarrow> doc \<Rightarrow> unit io" where
  "doc_set c i data = remote (\<lambda>w.
     (Inr (), w\<lparr>db := (db w)(c := AList.update i data (db w c))\<rparr>))"

text \<open>\<^verbatim>\<open>.document(i).update(data)\<close>: merges into an existing document, fails on a missing one.\<close>

definition doc_update :: "string \<Rightarrow> string \<Rightarrow> doc \<Rightarrow> unit io" where
  "doc_update c i data = remote (\<lambda>w.
     case map_of (db w c) i of
       None \<Rightarrow> (Inl (Upstream ''NOT_FOUND''), w)
     | Some d \<Rightarrow> (Inr (), w\<lparr>db := (db w)(c := AList.update i (d ++ data) (db w c))\<rparr>))"

text \<open>\<^verbatim>\<open>.document(i).delete()\<close>: succeeds whether or not the document exists.\<close>

definition doc_delete :: "string \<Rightarrow> string \<Rightarrow> unit io" where
  "doc_delete c i = remote (\<lambda>w.
     (Inr (), w\<lparr>db := (db w)(c := AList.delete i (db w c))\<rparr>))"

text \<open>
  \<^verbatim>\<open>db.collection(c).add(data)[1].id\<close>: the store creates the document under an
  identifier generated for it, and fails when that identifier is taken.
\<close>

definition coll_add :: "string \<Rightarrow> doc \<Rightarrow> string io" where
  "coll_add c data = remote (\<lambda>w.
     if id_supply w 0 \<in> set (map fst (db w c))
     then (Inl (Upstream ''ALREADY_EXISTS''), w\<lparr>id_supply := (\<lambda>n. id_supply w (Suc n))\<rparr>)
     else (Inr (id_supply w 0),
           w\<lparr>db := (db w)(c := db w c @ [(id_supply w 0, data)]),
             id_supply := (\<lambda>n. id_supply w (Suc n))\<rparr>))"

text \<open>\<^verbatim>\<open>db.collection(c).stream()\<close>\<close>

definition coll_stream :: "string \<Rightarrow> collection io" where
  "coll_stream c = remote (\<lambda>w. (Inr (db w c), w))"

text \<open>\<^verbatim>\<open>db.collection(c).where(field, "==", v).stream()\<close>\<close>

definition coll_where :: "string \<Rightarrow> string \<Rightarrow> fval \<Rightarrow> collection io" where
  "coll_where c field v = remote (\<lambda>w. (Inr (filter (\<lambda>(i, d). d field = Some v) (db w c)), w))"

section \<open>Request models\<close>

record UserSignup =
  email :: string
  password :: string
  name :: string
  role :: string
  research_interests :: "string list"

record ResearchListing =
  title :: string
  description :: string
  professor_id :: string
  eligibility :: "string list"
  tags :: "string list"

text \<open>
  A field of \<^verbatim>\<open>ResearchListingUpdate\<close> is \<^verbatim>\<open>Optional[...] = None\<close>, and the model
  remembers which fields the request set: a field is absent from the body (\<open>Unset\<close>),
  present as \<^verbatim>\<open>null\<close> (\<open>Null\<close>), or present with a value. The fields carry the prefix
  \<open>new_\<close> since a record field name is global.
\<close>

datatype 'a field = Unset | Null | Value 'a

record ResearchListingUpdate =
  new_title :: "string field"
  new_description :: "string field"
  new_professor_id :: "string field"
  new_eligibility :: "string list field"
  new_tags :: "string list field"

record ResearchApplication =
  student_id :: string
  listing_id :: string
  student_name :: string
  student_email :: string
  statement_of_purpose :: string

text \<open>\<^verbatim>\<open>listing.dict()\<close>, \<^verbatim>\<open>application.dict()\<close>\<close>

definition listing_dict :: "ResearchListing \<Rightarrow> doc" where
  "listing_dict l =
     [''title'' \<mapsto> Str (title l), ''description'' \<mapsto> Str (description l),
      ''professor_id'' \<mapsto> Str (professor_id l), ''eligibility'' \<mapsto> StrList (eligibility l),
      ''tags'' \<mapsto> StrList (tags l)]"

definition application_dict :: "ResearchApplication \<Rightarrow> doc" where
  "application_dict a =
     [''student_id'' \<mapsto> Str (student_id a), ''listing_id'' \<mapsto> Str (listing_id a),
      ''student_name'' \<mapsto> Str (student_name a), ''student_email'' \<mapsto> Str (student_email a),
      ''statement_of_purpose'' \<mapsto> Str (statement_of_purpose a)]"

text \<open>\<^verbatim>\<open>listing.dict(exclude_unset=True).items()\<close>: the fields that the request set, a \<^verbatim>\<open>null\<close> as \<open>None\<close>.\<close>

fun item :: "string \<Rightarrow> ('a \<Rightarrow> fval) \<Rightarrow> 'a field \<Rightarrow> (string \<times> fval option) list" where
  "item k f Unset = []"
| "item k f Null = [(k, None)]"
| "item k f (Value v) = [(k, Some (f v))]"

definition dict_exclude_unset :: "ResearchListingUpdate \<Rightarrow> (string \<times> fval option) list" where
  "dict_exclude_unset u =
     item ''title'' Str (new_title u) @ item ''description'' Str (new_description u) @
     item ''professor_id'' Str (new_professor_id u) @
     item ''eligibility'' StrList (new_eligibility u) @ item ''tags'' StrList (new_tags u)"

text \<open>\<^verbatim>\<open>{k: v for k, v in items if v is not None}\<close>\<close>

fun not_none :: "(string \<times> fval option) list \<Rightarrow> (string \<times> fval) list" where
  "not_none [] = []"
| "not_none ((k, None) # kvs) = not_none kvs"
| "not_none ((k, Some v) # kvs) = (k, v) # not_none kvs"

text \<open>\<^verbatim>\<open>{"id": doc.id, **doc.to_dict()}\<close>: a field \<^verbatim>\<open>id\<close> of the document itself wins.\<close>

definition with_id :: "string \<Rightarrow> doc \<Rightarrow> doc" where
  "with_id i d = [''id'' \<mapsto> Str i] ++ d"

section \<open>The handlers\<close>

text \<open>The \<^verbatim>\<open>print\<close> calls write a debugging log and are left out.\<close>

definition signup :: "UserSignup \<Rightarrow> response io" where
  "signup user =
     io_try
       (io_bind (create_user (email user) (password user)) (\<lambda>uid.
        io_bind (doc_set ''users'' uid
                   [''name'' \<mapsto> Str (name user), ''email'' \<mapsto> Str (email user),
                    ''role'' \<mapsto> Str (role user),
                    ''research_interests'' \<mapsto> StrList (research_interests user)]) (\<lambda>_.
        io_return (Obj [''message'' \<mapsto> Str ''User registered successfully'',
                        ''uid'' \<mapsto> Str uid]))))
       (\<lambda>e. io_raise (HTTPException 400 (str_exn e)))"

definition create_listing :: "ResearchListing \<Rightarrow> response io" where
  "create_listing listing =
     io_try
       (io_bind (coll_add ''research_listings'' (listing_dict listing)) (\<lambda>new_id.
        io_return (Obj [''message'' \<mapsto> Str ''Research listing created'',
                        ''listing_id'' \<mapsto> Str new_id])))
       (\<lambda>e. io_raise (HTTPException 400 (str_exn e)))"

definition get_all_listings :: "response io" where
  "get_all_listings =
     io_try
       (io_bind (coll_stream ''research_listings'') (\<lambda>listings.
        io_return (Arr (map (\<lambda>(i, d). with_id i d) listings))))
       (\<lambda>e. io_raise (HTTPException 400 (str_exn e)))"

definition get_listing :: "string \<Rightarrow> response io" where
  "get_listing lid =
     io_bind (doc_get ''research_listings'' lid) (\<lambda>snapshot.
       case snapshot of
         None \<Rightarrow> io_raise (HTTPException 404 ''Listing not found'')
       | Some d \<Rightarrow> io_return (Obj (with_id lid d)))"

definition update_listing :: "string \<Rightarrow> ResearchListingUpdate \<Rightarrow> response io" where
  "update_listing lid listing =
     io_bind (doc_get ''research_listings'' lid) (\<lambda>snapshot.
       if snapshot = None then io_raise (HTTPException 404 ''Listing not found'')
       else if not_none (dict_exclude_unset listing) = []
       then io_raise (HTTPException 400 ''No valid fields provided for update'')
       else io_bind (doc_update ''research_listings'' lid
                       (map_of (not_none (dict_exclude_unset listing)))) (\<lambda>_.
            io_return (Obj [''message'' \<mapsto> Str ''Listing updated successfully''])))"

text \<open>
  The header \<^verbatim>\<open>user_id\<close> is \<open>None\<close> when the request has none. \<^verbatim>\<open>not user_id\<close> holds
  for \<^verbatim>\<open>None\<close> and for the empty string.
\<close>

definition delete_listing :: "string \<Rightarrow> string option \<Rightarrow> response io" where
  "delete_listing lid user_id =
     (case user_id of
        None \<Rightarrow> io_raise (HTTPException 401 ''User ID missing in request headers'')
      | Some uid \<Rightarrow>
          if uid = [] then io_raise (HTTPException 401 ''User ID missing in request headers'')
          else io_bind (doc_get ''users'' uid) (\<lambda>user_doc.
            case user_doc of
              None \<Rightarrow> io_raise (HTTPException 404 ''User not found'')
            | Some user_data \<Rightarrow>
                if user_data ''role'' \<noteq> Some (Str ''professor'')
                then io_raise (HTTPException 403 ''Only professors can delete listings'')
                else io_bind (doc_get ''research_listings'' lid) (\<lambda>snapshot.
                  if snapshot = None then io_raise (HTTPException 404 ''Listing not found'')
                  else io_bind (doc_delete ''research_listings'' lid) (\<lambda>_.
                       io_return (Obj [''message'' \<mapsto> Str ''Listing deleted successfully''])))))"

definition apply_to_listing :: "ResearchApplication \<Rightarrow> response io" where
  "apply_to_listing application =
     io_try
       (io_bind (coll_add ''applications'' (application_dict application)) (\<lambda>new_id.
        io_return (Obj [''message'' \<mapsto> Str ''Application submitted successfully'',
                        ''application_id'' \<mapsto> Str new_id])))
       (\<lambda>e. io_raise (HTTPException 400 (str_exn e)))"

definition get_applications_for_listing :: "string \<Rightarrow> response io" where
  "get_applications_for_listing lid =
     io_try
       (io_bind (coll_where ''applications'' ''listing_id'' (Str lid)) (\<lambda>applications.
        io_return (Arr (map (\<lambda>(i, d). with_id i d) applications))))
       (\<lambda>e. io_raise (HTTPException 400 (str_exn e)))"

definition get_student_applications :: "string \<Rightarrow> response io" where
  "get_student_applications sid =
     io_try
       (io_bind (coll_where ''applications'' ''student_id'' (Str sid)) (\<lambda>applications.
        io_return (Arr (map (\<lambda>(i, d). with_id i d) applications))))
       (\<lambda>e. io_raise (HTTPException 400 (str_exn e)))"

definition delete_application :: "string \<Rightarrow> response io" where
  "delete_application aid =
     io_bind (doc_get ''applications'' aid) (\<lambda>snapshot.
       if snapshot = None then io_raise (HTTPException 404 ''Application not found'')
       else io_bind (doc_delete ''applications'' aid) (\<lambda>_.
            io_return (Obj [''message'' \<mapsto> Str ''Application deleted successfully''])))"

section \<open>Example states and requests\<close>

text \<open>
  A state with a professor \<open>u1\<close> and a student \<open>u2\<close>, one listing (whose \<open>professor_id\<close>
  is not \<open>u1\<close>) and three applications, two of them for the listing \<open>L1\<close>.
\<close>

definition demo_world :: world where
  "demo_world =
     \<lparr>accounts = [(''u1'', ''ada@uni.edu'', ''secret1''), (''u2'', ''bob@uni.edu'', ''secret2'')],
      db = (\<lambda>c.
        if c = ''users'' then
          [(''u1'', [''name'' \<mapsto> Str ''Ada'', ''email'' \<mapsto> Str ''ada@uni.edu'',
                     ''role'' \<mapsto> Str ''professor'', ''research_interests'' \<mapsto> StrList [''ml'']]),
           (''u2'', [''name'' \<mapsto> Str ''Bob'', ''email'' \<mapsto> Str ''bob@uni.edu'',
                     ''role'' \<mapsto> Str ''student'', ''research_interests'' \<mapsto> StrList []])]
        else if c = ''research_listings'' then
          [(''L1'', [''title'' \<mapsto> Str ''AI Research'', ''description'' \<mapsto> Str ''...'',
                     ''professor_id'' \<mapsto> Str ''p1'', ''eligibility'' \<mapsto> StrList [''senior''],
                     ''tags'' \<mapsto> StrList [''ml'']])]
        else if c = ''applications'' then
          [(''A1'', [''student_id'' \<mapsto> Str ''u2'', ''listing_id'' \<mapsto> Str ''L1'',
                     ''student_name'' \<mapsto> Str ''Bob'', ''student_email'' \<mapsto> Str ''bob@uni.edu'',
                     ''statement_of_purpose'' \<mapsto> Str ''I like ML'']),
           (''A2'', [''student_id'' \<mapsto> Str ''u2'', ''listing_id'' \<mapsto> Str ''L2'',
                     ''student_name'' \<mapsto> Str ''Bob'', ''student_email'' \<mapsto> Str ''bob@uni.edu'',
                     ''statement_of_purpose'' \<mapsto> Str ''I like DB'']),
           (''A3'', [''student_id'' \<mapsto> Str ''u3'', ''listing_id'' \<mapsto> Str ''L1'',
                     ''student_name'' \<mapsto> Str ''Cy'', ''student_email'' \<mapsto> Str ''cy@uni.edu'',
                     ''statement_of_purpose'' \<mapsto> Str ''Me too''])]
        else []),
      faults = [],
      id_supply = (\<lambda>n. ''id'' @ replicate n CHR ''x'')\<rparr>"

text \<open>An update whose supplied fields are all \<^verbatim>\<open>null\<close>, and one that sets two fields.\<close>

definition all_null :: ResearchListingUpdate where
  "all_null = \<lparr>new_title = Null, new_description = Unset, new_professor_id = Null,
               new_eligibility = Unset, new_tags = Null\<rparr>"

definition retitle :: ResearchListingUpdate where
  "retitle = \<lparr>new_title = Value ''Vision Research'', new_description = Null,
              new_professor_id = Unset, new_eligibility = Unset, new_tags = Value [''cv'']\<rparr>"

text \<open>A signup, a listing and an application; the state \<open>demo_world\<close> with the store unreachable.\<close>

definition new_user :: UserSignup where
  "new_user = \<lparr>email = ''eve@uni.edu'', password = ''hunter22'', name = ''Eve'',
               role = ''student'', research_interests = [''nlp'']\<rparr>"

definition ai_listing :: ResearchListing where
  "ai_listing = \<lparr>title = ''AI Research'', description = ''...'', professor_id = ''p1'',
                  eligibility = [''senior''], tags = [''ml'']\<rparr>"

definition ml_application :: ResearchApplication where
  "ml_application = \<lparr>student_id = ''u2'', listing_id = ''L1'', student_name = ''Bob'',
                      student_email = ''bob@uni.edu'', statement_of_purpose = ''I like ML''\<rparr>"

definition store_down :: world where
  "store_down = demo_world\<lparr>faults := [Some ''UNAVAILABLE'']\<rparr>"


section \<open>Notions of the specification\<close>

text \<open>The documents of a list response, as a set (empty for any other outcome).\<close>

definition returned :: "(exn + response) \<times> world \<Rightarrow> doc set" where
  "returned out = (case fst out of Inr (Arr rs) \<Rightarrow> set rs | _ \<Rightarrow> {})"



text \<open>
  The error kinds of the API: an outcome is mapped when it is a response or an
  \<open>HTTPException\<close> with status 400, 404, 401 or 403.
\<close>

definition mapped :: "(exn + response) \<Rightarrow> bool" where
  "mapped r = (case r of
       Inr _ \<Rightarrow> True
     | Inl (HTTPException status _) \<Rightarrow> status \<in> {400, 404, 401, 403}
     | Inl (Upstream _) \<Rightarrow> False)"

definition ok_or_400 :: "(exn + response) \<Rightarrow> bool" where
  "ok_or_400 r = (case r of
       Inr _ \<Rightarrow> True
     | Inl (HTTPException status _) \<Rightarrow> status = 400
     | Inl (Upstream _) \<Rightarrow> False)"

section \<open>Properties\<close>

lemmas io_defs = io_return_def io_raise_def io_bind_def io_try_def remote_def

subsection \<open>Deleting a listing\<close>

text \<open>
  C1. In a run without upstream failure, \<open>delete_listing\<close> succeeds if and only if the
  request carries a caller identifier (a \<^verbatim>\<open>user_id\<close> header with a non-empty value; an
  empty value counts as missing), the identifier is that of a document of
  \<open>users\<close>, the \<open>role\<close> of that document is exactly \<open>professor\<close>, and the listing exists.
  The checks are made in this order and the first that fails decides the error: 401
  (no caller identifier), 404 (caller not found), 403 (not a professor), 404 (listing
  not found); an error leaves the state unchanged. On success the listing is removed;
  the condition never mentions the listing's \<open>professor_id\<close>.
\<close>

theorem delete_listing_authorization:
  assumes "faults w = []"
  shows
   "((\<exists>r. fst (delete_listing lid hdr w) = Inr r) \<longleftrightarrow>
       (\<exists>uid u. hdr = Some uid \<and> uid \<noteq> [] \<and> map_of (db w ''users'') uid = Some u
          \<and> u ''role'' = Some (Str ''professor'')
          \<and> map_of (db w ''research_listings'') lid \<noteq> None))
    \<and> (hdr = None \<or> hdr = Some [] \<longrightarrow>
         delete_listing lid hdr w
           = (Inl (HTTPException 401 ''User ID missing in request headers''), w))
    \<and> (\<forall>uid. hdr = Some uid \<and> uid \<noteq> [] \<and> map_of (db w ''users'') uid = None \<longrightarrow>
         delete_listing lid hdr w = (Inl (HTTPException 404 ''User not found''), w))
    \<and> (\<forall>uid u. hdr = Some uid \<and> uid \<noteq> [] \<and> map_of (db w ''users'') uid = Some u
          \<and> u ''role'' \<noteq> Some (Str ''professor'') \<longrightarrow>
         delete_listing lid hdr w
           = (Inl (HTTPException 403 ''Only professors can delete listings''), w))
    \<and> (\<forall>uid u. hdr = Some uid \<and> uid \<noteq> [] \<and> map_of (db w ''users'') uid = Some u
          \<and> u ''role'' = Some (Str ''professor'')
          \<and> map_of (db w ''research_listings'') lid = None \<longrightarrow>
         delete_listing lid hdr w = (Inl (HTTPException 404 ''Listing not found''), w))
    \<and> (\<forall>uid u. hdr = Some uid \<and> uid \<noteq> [] \<and> map_of (db w ''users'') uid = Some u
          \<and> u ''role'' = Some (Str ''professor'')
          \<and> map_of (db w ''research_listings'') lid \<noteq> None \<longrightarrow>
         delete_listing lid hdr w
           = (Inr (Obj [''message'' \<mapsto> Str ''Listing deleted successfully'']),
              w\<lparr>db := (db w)(''research_listings'' :=
                         AList.delete lid (db w ''research_listings''))\<rparr>)
         \<and> map_of (AList.delete lid (db w ''research_listings'')) lid = None)"
  using assms
  by (auto simp: delete_listing_def io_defs doc_get_def doc_delete_def AList.delete_conv'
           split: option.splits)

theorem delete_listing_authorization_witness:
  "faults demo_world = []
   \<and> map_of (db demo_world ''research_listings'') ''L1'' \<noteq> None
   \<and> fst (delete_listing ''L1'' (Some ''u1'') demo_world)
       = Inr (Obj [''message'' \<mapsto> Str ''Listing deleted successfully''])
   \<and> map_of (db (snd (delete_listing ''L1'' (Some ''u1'') demo_world)) ''research_listings'') ''L1'' = None
   \<and> fst (delete_listing ''L1'' (Some ''u2'') demo_world)
       = Inl (HTTPException 403 ''Only professors can delete listings'')"
  using delete_listing_authorization [of demo_world "''L1''" "Some ''u1''"]
        delete_listing_authorization [of demo_world "''L1''" "Some ''u2''"]
  by (simp add: demo_world_def)

subsection \<open>Partial update of a listing\<close>

lemma effective_fields_empty_iff:
  "not_none (dict_exclude_unset u) = [] \<longleftrightarrow>
     new_title u \<in> {Unset, Null} \<and> new_description u \<in> {Unset, Null}
     \<and> new_professor_id u \<in> {Unset, Null} \<and> new_eligibility u \<in> {Unset, Null}
     \<and> new_tags u \<in> {Unset, Null}"
  unfolding dict_exclude_unset_def
  by (cases "new_title u"; cases "new_description u"; cases "new_professor_id u";
      cases "new_eligibility u"; cases "new_tags u") simp_all

text \<open>
  C2. For a listing that exists, an update none of whose fields carries a value (each
  field is absent from the body or \<^verbatim>\<open>null\<close>) raises 400 with the detail
  "No valid fields provided for update", and the whole state, the stored listing
  included, is unchanged.
\<close>

theorem update_listing_no_valid_fields:
  assumes "faults w = []"
    and "map_of (db w ''research_listings'') lid = Some d"
    and "new_title u \<in> {Unset, Null}" and "new_description u \<in> {Unset, Null}"
    and "new_professor_id u \<in> {Unset, Null}" and "new_eligibility u \<in> {Unset, Null}"
    and "new_tags u \<in> {Unset, Null}"
  shows "update_listing lid u w
           = (Inl (HTTPException 400 ''No valid fields provided for update''), w)"
proof -
  have "not_none (dict_exclude_unset u) = []"
    using assms(3-7) by (simp only: effective_fields_empty_iff simp_thms)
  with assms(1,2) show ?thesis
    by (simp add: update_listing_def io_defs doc_get_def)
qed

theorem update_listing_no_valid_fields_witness:
  "faults demo_world = []
   \<and> map_of (db demo_world ''research_listings'') ''L1'' \<noteq> None
   \<and> new_title all_null = Null \<and> new_description all_null = Unset
   \<and> update_listing ''L1'' all_null demo_world
       = (Inl (HTTPException 400 ''No valid fields provided for update''), demo_world)"
proof -
  have f: "faults demo_world = []" by (simp add: demo_world_def)
  obtain d where d: "map_of (db demo_world ''research_listings'') ''L1'' = Some d"
    by (simp add: demo_world_def)
  have n: "new_title all_null \<in> {Unset, Null}" "new_description all_null \<in> {Unset, Null}"
    "new_professor_id all_null \<in> {Unset, Null}" "new_eligibility all_null \<in> {Unset, Null}"
    "new_tags all_null \<in> {Unset, Null}"
    by (simp_all add: all_null_def)
  from update_listing_no_valid_fields [OF f d n] f d show ?thesis
    by (simp add: all_null_def)
qed

lemma map_of_not_none_item:
  "map_of (not_none (item k f x @ rest)) k' =
     (if k' = k then (case x of Value v \<Rightarrow> Some (f v) | _ \<Rightarrow> map_of (not_none rest) k')
      else map_of (not_none rest) k')"
  by (cases x) simp_all

lemma map_of_update_data:
  "map_of (not_none (dict_exclude_unset u)) k =
     (if k = ''title'' then (case new_title u of Value v \<Rightarrow> Some (Str v) | _ \<Rightarrow> None)
      else if k = ''description'' then (case new_description u of Value v \<Rightarrow> Some (Str v) | _ \<Rightarrow> None)
      else if k = ''professor_id'' then (case new_professor_id u of Value v \<Rightarrow> Some (Str v) | _ \<Rightarrow> None)
      else if k = ''eligibility'' then (case new_eligibility u of Value v \<Rightarrow> Some (StrList v) | _ \<Rightarrow> None)
      else if k = ''tags'' then (case new_tags u of Value v \<Rightarrow> Some (StrList v) | _ \<Rightarrow> None)
      else None)"
proof -
  have last: "map_of (not_none (item ''tags'' StrList (new_tags u))) k =
      (if k = ''tags'' then (case new_tags u of Value v \<Rightarrow> Some (StrList v) | _ \<Rightarrow> None) else None)"
    using map_of_not_none_item [of "''tags''" StrList "new_tags u" "[]" k] by (simp split: field.splits)
  show ?thesis
    unfolding dict_exclude_unset_def
    by (simp only: map_of_not_none_item last) (simp split: field.splits)
qed

lemma update_listing_success:
  assumes "faults w = []"
    and "map_of (db w ''research_listings'') lid = Some d"
    and "not_none (dict_exclude_unset u) \<noteq> []"
  shows "update_listing lid u w =
           (Inr (Obj [''message'' \<mapsto> Str ''Listing updated successfully'']),
            w\<lparr>db := (db w)(''research_listings'' :=
                 AList.update lid (d ++ map_of (not_none (dict_exclude_unset u)))
                   (db w ''research_listings''))\<rparr>)"
  using assms by (simp add: update_listing_def io_defs doc_get_def doc_update_def)

text \<open>
  C3. For a listing that exists and an update with at least one field carrying a value,
  \<open>update_listing\<close> succeeds and merges: each of the five fields takes the supplied
  value when there is one and keeps its stored value when the field is absent or
  \<^verbatim>\<open>null\<close>; every other field of the document, every other document of the collection
  (and the order of the collection), every other collection and the accounts are as
  before.
\<close>

theorem update_listing_merge:
  assumes "faults w = []"
    and "map_of (db w ''research_listings'') lid = Some d"
    and "(\<exists>v. new_title u = Value v) \<or> (\<exists>v. new_description u = Value v)
         \<or> (\<exists>v. new_professor_id u = Value v) \<or> (\<exists>v. new_eligibility u = Value v)
         \<or> (\<exists>v. new_tags u = Value v)"
  shows "fst (update_listing lid u w)
           = Inr (Obj [''message'' \<mapsto> Str ''Listing updated successfully''])
    \<and> (\<exists>d'. map_of (db (snd (update_listing lid u w)) ''research_listings'') lid = Some d'
         \<and> d' ''title'' = (case new_title u of Value v \<Rightarrow> Some (Str v) | _ \<Rightarrow> d ''title'')
         \<and> d' ''description''
             = (case new_description u of Value v \<Rightarrow> Some (Str v) | _ \<Rightarrow> d ''description'')
         \<and> d' ''professor_id''
             = (case new_professor_id u of Value v \<Rightarrow> Some (Str v) | _ \<Rightarrow> d ''professor_id'')
         \<and> d' ''eligibility''
             = (case new_eligibility u of Value v \<Rightarrow> Some (StrList v) | _ \<Rightarrow> d ''eligibility'')
         \<and> d' ''tags'' = (case new_tags u of Value v \<Rightarrow> Some (StrList v) | _ \<Rightarrow> d ''tags'')
         \<and> (\<forall>k. k \<notin> {''title'', ''description'', ''professor_id'', ''eligibility'', ''tags''}
                \<longrightarrow> d' k = d k))
    \<and> (\<forall>j. j \<noteq> lid \<longrightarrow>
          map_of (db (snd (update_listing lid u w)) ''research_listings'') j
            = map_of (db w ''research_listings'') j)
    \<and> map fst (db (snd (update_listing lid u w)) ''research_listings'')
        = map fst (db w ''research_listings'')
    \<and> (\<forall>c. c \<noteq> ''research_listings'' \<longrightarrow> db (snd (update_listing lid u w)) c = db w c)
    \<and> accounts (snd (update_listing lid u w)) = accounts w"
proof -
  let ?upd = "map_of (not_none (dict_exclude_unset u))"
  let ?w' = "snd (update_listing lid u w)"
  have ne: "not_none (dict_exclude_unset u) \<noteq> []"
    using assms(3) by (auto simp: effective_fields_empty_iff)
  have key: "lid \<in> fst ` set (db w ''research_listings'')"
    using map_of_SomeD [OF assms(2)] by force
  note run = update_listing_success [OF assms(1,2) ne]
  have merged: "(d ++ ?upd) k = (case ?upd k of None \<Rightarrow> d k | Some v \<Rightarrow> Some v)" for k
    by (simp add: map_add_def)
  have res: "fst (update_listing lid u w)
      = Inr (Obj [''message'' \<mapsto> Str ''Listing updated successfully''])"
    by (simp add: run)
  have new_doc: "map_of (db ?w' ''research_listings'') lid = Some (d ++ ?upd)"
    by (simp add: run AList.update_conv')
  have t: "(d ++ ?upd) ''title'' = (case new_title u of Value v \<Rightarrow> Some (Str v) | _ \<Rightarrow> d ''title'')"
    by (simp add: merged map_of_update_data split: field.splits)
  have de: "(d ++ ?upd) ''description''
      = (case new_description u of Value v \<Rightarrow> Some (Str v) | _ \<Rightarrow> d ''description'')"
    by (simp add: merged map_of_update_data split: field.splits)
  have p: "(d ++ ?upd) ''professor_id''
      = (case new_professor_id u of Value v \<Rightarrow> Some (Str v) | _ \<Rightarrow> d ''professor_id'')"
    by (simp add: merged map_of_update_data split: field.splits)
  have e: "(d ++ ?upd) ''eligibility''
      = (case new_eligibility u of Value v \<Rightarrow> Some (StrList v) | _ \<Rightarrow> d ''eligibility'')"
    by (simp add: merged map_of_update_data split: field.splits)
  have g: "(d ++ ?upd) ''tags'' = (case new_tags u of Value v \<Rightarrow> Some (StrList v) | _ \<Rightarrow> d ''tags'')"
    by (simp add: merged map_of_update_data split: field.splits)
  have other: "\<forall>k. k \<notin> {''title'', ''description'', ''professor_id'', ''eligibility'', ''tags''}
      \<longrightarrow> (d ++ ?upd) k = d k"
    by (simp add: merged map_of_update_data)
  have docs: "\<forall>j. j \<noteq> lid \<longrightarrow>
      map_of (db ?w' ''research_listings'') j = map_of (db w ''research_listings'') j"
    by (simp add: run AList.update_conv')
  have keys: "map fst (db ?w' ''research_listings'') = map fst (db w ''research_listings'')"
    using key by (simp add: run AList.update_keys)
  have colls: "\<forall>c. c \<noteq> ''research_listings'' \<longrightarrow> db ?w' c = db w c"
    by (simp add: run)
  have accs: "accounts ?w' = accounts w"
    by (simp add: run)
  from new_doc t de p e g other have "\<exists>d'. map_of (db ?w' ''research_listings'') lid = Some d'
         \<and> d' ''title'' = (case new_title u of Value v \<Rightarrow> Some (Str v) | _ \<Rightarrow> d ''title'')
         \<and> d' ''description''
             = (case new_description u of Value v \<Rightarrow> Some (Str v) | _ \<Rightarrow> d ''description'')
         \<and> d' ''professor_id''
             = (case new_professor_id u of Value v \<Rightarrow> Some (Str v) | _ \<Rightarrow> d ''professor_id'')
         \<and> d' ''eligibility''
             = (case new_eligibility u of Value v \<Rightarrow> Some (StrList v) | _ \<Rightarrow> d ''eligibility'')
         \<and> d' ''tags'' = (case new_tags u of Value v \<Rightarrow> Some (StrList v) | _ \<Rightarrow> d ''tags'')
         \<and> (\<forall>k. k \<notin> {''title'', ''description'', ''professor_id'', ''eligibility'', ''tags''}
                \<longrightarrow> d' k = d k)"
    by blast
  with res docs keys colls accs show ?thesis
    by blast
qed

theorem update_listing_merge_witness:
  "faults demo_world = []
   \<and> map_of (db demo_world ''research_listings'') ''L1'' \<noteq> None
   \<and> new_title retitle = Value ''Vision Research''
   \<and> fst (update_listing ''L1'' retitle demo_world)
       = Inr (Obj [''message'' \<mapsto> Str ''Listing updated successfully''])
   \<and> (\<exists>d'. map_of (db (snd (update_listing ''L1'' retitle demo_world)) ''research_listings'') ''L1''
              = Some d'
         \<and> d' ''title'' = Some (Str ''Vision Research'')
         \<and> d' ''description'' = Some (Str ''...'')
         \<and> d' ''professor_id'' = Some (Str ''p1'')
         \<and> d' ''tags'' = Some (StrList [''cv'']))"
proof -
  have f: "faults demo_world = []" by (simp add: demo_world_def)
  obtain d where d: "map_of (db demo_world ''research_listings'') ''L1'' = Some d"
    and dv: "d ''description'' = Some (Str ''...'')" "d ''professor_id'' = Some (Str ''p1'')"
    by (simp add: demo_world_def)
  have v: "(\<exists>v. new_title retitle = Value v) \<or> (\<exists>v. new_description retitle = Value v)
         \<or> (\<exists>v. new_professor_id retitle = Value v) \<or> (\<exists>v. new_eligibility retitle = Value v)
         \<or> (\<exists>v. new_tags retitle = Value v)"
    by (simp add: retitle_def)
  have r: "new_title retitle = Value ''Vision Research''" "new_description retitle = Null"
    "new_professor_id retitle = Unset" "new_tags retitle = Value [''cv'']"
    by (simp_all add: retitle_def)
  from update_listing_merge [OF f d v] f d dv show ?thesis
    by (simp add: r) blast
qed

subsection \<open>Registration\<close>

text \<open>
  C4. When the identity provider and the store accept the signup (no upstream failure,
  and the email has no account yet), \<open>signup\<close> returns the identifier under which the
  provider recorded the account, and the document of \<open>users\<close> under that identifier has
  exactly the fields \<open>name\<close>, \<open>email\<close>, \<open>role\<close> and \<open>research_interests\<close>, with the values
  of the request; it has no field \<open>password\<close>.
\<close>

theorem signup_returns_document_key:
  assumes "faults w = []"
    and "email u \<notin> set (map (\<lambda>(i, e, p). e) (accounts w))"
  shows "fst (signup u w)
           = Inr (Obj [''message'' \<mapsto> Str ''User registered successfully'',
                       ''uid'' \<mapsto> Str (id_supply w 0)])
    \<and> accounts (snd (signup u w)) = accounts w @ [(id_supply w 0, email u, password u)]
    \<and> (\<exists>d. map_of (db (snd (signup u w)) ''users'') (id_supply w 0) = Some d
          \<and> dom d = {''name'', ''email'', ''role'', ''research_interests''}
          \<and> d ''name'' = Some (Str (name u)) \<and> d ''email'' = Some (Str (email u))
          \<and> d ''role'' = Some (Str (role u))
          \<and> d ''research_interests'' = Some (StrList (research_interests u))
          \<and> d ''password'' = None)"
  using assms
  by (auto simp: signup_def io_defs create_user_def doc_set_def AList.update_conv')

theorem signup_returns_document_key_witness:
  "faults demo_world = []
   \<and> email new_user \<notin> set (map (\<lambda>(i, e, p). e) (accounts demo_world))
   \<and> fst (signup new_user demo_world)
        = Inr (Obj [''message'' \<mapsto> Str ''User registered successfully'', ''uid'' \<mapsto> Str ''id''])
   \<and> (\<exists>d. map_of (db (snd (signup new_user demo_world)) ''users'') ''id'' = Some d
          \<and> dom d = {''name'', ''email'', ''role'', ''research_interests''}
          \<and> d ''password'' = None)"
proof -
  have f: "faults demo_world = []" by (simp add: demo_world_def)
  have e: "email new_user \<notin> set (map (\<lambda>(i, e, p). e) (accounts demo_world))"
    by (simp add: demo_world_def new_user_def)
  have i: "id_supply demo_world 0 = ''id''" by (simp add: demo_world_def)
  from signup_returns_document_key [OF f e] f e show ?thesis
    unfolding i by blast
qed

text \<open>
  C5. When the provider creates the account and the write of the user document then
  fails with the message \<open>msg\<close>, \<open>signup\<close> raises 400 with that message, the account stays
  in the provider, and the store is as before: nothing is undone.
\<close>

theorem signup_not_atomic:
  assumes "faults w = None # Some msg # fs"
    and "email u \<notin> set (map (\<lambda>(i, e, p). e) (accounts w))"
  shows "fst (signup u w) = Inl (HTTPException 400 msg)
    \<and> accounts (snd (signup u w)) = accounts w @ [(id_supply w 0, email u, password u)]
    \<and> db (snd (signup u w)) = db w"
  using assms
  by (simp add: signup_def io_defs create_user_def doc_set_def)

theorem signup_not_atomic_witness:
  "faults (demo_world\<lparr>faults := [None, Some ''UNAVAILABLE'']\<rparr>) = [None, Some ''UNAVAILABLE'']
   \<and> email new_user \<notin> set (map (\<lambda>(i, e, p). e) (accounts demo_world))
   \<and> fst (signup new_user (demo_world\<lparr>faults := [None, Some ''UNAVAILABLE'']\<rparr>))
        = Inl (HTTPException 400 ''UNAVAILABLE'')
   \<and> (''id'', ''eve@uni.edu'', ''hunter22'')
        \<in> set (accounts (snd (signup new_user (demo_world\<lparr>faults := [None, Some ''UNAVAILABLE'']\<rparr>))))
   \<and> map_of (db (snd (signup new_user (demo_world\<lparr>faults := [None, Some ''UNAVAILABLE'']\<rparr>))) ''users'')
        ''id'' = None"
  using signup_not_atomic [of "demo_world\<lparr>faults := [None, Some ''UNAVAILABLE'']\<rparr>"
          "''UNAVAILABLE''" "[]" new_user]
  by (simp add: demo_world_def new_user_def)

subsection \<open>Applications\<close>

lemma get_applications_for_listing_run:
  assumes "faults w = []"
  shows "get_applications_for_listing X w =
     (Inr (Arr (map (\<lambda>(i, d). with_id i d)
                 (filter (\<lambda>(i, d). d ''listing_id'' = Some (Str X)) (db w ''applications'')))), w)"
  using assms by (simp add: get_applications_for_listing_def io_defs coll_where_def)

text \<open>
  What the handler returns without upstream failure: a list whose elements are exactly
  the documents of \<open>applications\<close> whose field \<open>listing_id\<close> is the text \<open>X\<close>, each
  passed through \<open>with_id\<close>; for a document without a field \<open>id\<close> of its own, \<open>with_id\<close>
  binds \<open>id\<close> to the identifier; the set returned depends only on the set of stored
  documents, not on their order; the state is unchanged.
\<close>

lemma applications_for_listing_set:
  assumes "faults w = []"
  shows "(\<exists>rs. fst (get_applications_for_listing X w) = Inr (Arr rs))
    \<and> returned (get_applications_for_listing X w)
        = {with_id i d | i d. (i, d) \<in> set (db w ''applications'')
                                \<and> d ''listing_id'' = Some (Str X)}
    \<and> (\<forall>i d. ''id'' \<notin> dom d \<longrightarrow> with_id i d = d(''id'' \<mapsto> Str i))
    \<and> (\<forall>w2. faults w2 = [] \<and> set (db w2 ''applications'') = set (db w ''applications'')
          \<longrightarrow> returned (get_applications_for_listing X w2)
                = returned (get_applications_for_listing X w))
    \<and> snd (get_applications_for_listing X w) = w"
proof -
  have set_eq: "returned (get_applications_for_listing X v)
        = {with_id i d | i d. (i, d) \<in> set (db v ''applications'')
                                \<and> d ''listing_id'' = Some (Str X)}"
    if "faults v = []" for v
    unfolding get_applications_for_listing_run [OF that] returned_def
    by (auto simp: image_iff)
  have ann: "\<forall>i d. ''id'' \<notin> dom d \<longrightarrow> with_id i d = d(''id'' \<mapsto> Str i)"
    by (auto simp: with_id_def map_add_def fun_eq_iff split: option.splits)
  have order: "\<forall>w2. faults w2 = [] \<and> set (db w2 ''applications'') = set (db w ''applications'')
          \<longrightarrow> returned (get_applications_for_listing X w2)
                = returned (get_applications_for_listing X w)"
    by (simp add: set_eq assms)
  show ?thesis
    using set_eq [OF assms] ann order
    by (simp add: get_applications_for_listing_run [OF assms])
qed


text \<open>
  C7. Without upstream failure, \<open>delete_application\<close> raises 404 and leaves the state
  unchanged when no application has the identifier; otherwise it succeeds and removes
  that application and no other. The handler has no caller argument and reads nothing
  but the application: existence is the only condition.
\<close>

theorem delete_application_unconditional:
  assumes "faults w = []"
  shows "(map_of (db w ''applications'') aid = None \<longrightarrow>
            delete_application aid w
              = (Inl (HTTPException 404 ''Application not found''), w))
    \<and> (map_of (db w ''applications'') aid \<noteq> None \<longrightarrow>
            delete_application aid w
              = (Inr (Obj [''message'' \<mapsto> Str ''Application deleted successfully'']),
                 w\<lparr>db := (db w)(''applications'' := AList.delete aid (db w ''applications''))\<rparr>)
            \<and> map_of (AList.delete aid (db w ''applications'')) aid = None
            \<and> (\<forall>j. j \<noteq> aid \<longrightarrow> map_of (AList.delete aid (db w ''applications'')) j
                                   = map_of (db w ''applications'') j))"
  using assms
  by (auto simp: delete_application_def io_defs doc_get_def doc_delete_def AList.delete_conv')

theorem delete_application_unconditional_witness:
  "faults demo_world = []
   \<and> map_of (db demo_world ''applications'') ''A9'' = None
   \<and> delete_application ''A9'' demo_world
       = (Inl (HTTPException 404 ''Application not found''), demo_world)
   \<and> map_of (db demo_world ''applications'') ''A2'' \<noteq> None
   \<and> fst (delete_application ''A2'' demo_world)
       = Inr (Obj [''message'' \<mapsto> Str ''Application deleted successfully''])
   \<and> map_of (db (snd (delete_application ''A2'' demo_world)) ''applications'') ''A2'' = None"
proof -
  have f: "faults demo_world = []" by (simp add: demo_world_def)
  have a9: "map_of (db demo_world ''applications'') ''A9'' = None" by (simp add: demo_world_def)
  have a2: "map_of (db demo_world ''applications'') ''A2'' \<noteq> None" by (simp add: demo_world_def)
  from delete_application_unconditional [OF f, of "''A9''"]
       delete_application_unconditional [OF f, of "''A2''"] f a9 a2
  show ?thesis by simp
qed

subsection \<open>Upstream failures\<close>

lemma io_try_ok_or_400:
  "ok_or_400 (fst (io_try m (\<lambda>e. io_raise (HTTPException 400 (str_exn e))) w))"
  by (simp add: io_try_def io_raise_def ok_or_400_def split: prod.splits sum.splits)

lemma try_first_call_raises:
  assumes "fst (m w) = Inl e"
  shows "fst (io_try (io_bind m f) (\<lambda>e. io_raise (HTTPException 400 (str_exn e))) w)
           = Inl (HTTPException 400 (str_exn e))"
  using assms by (cases "m w") (simp add: io_try_def io_bind_def io_raise_def)

lemma remote_first_fault:
  "faults w = Some msg # fs \<Longrightarrow> fst (remote call w) = Inl (Upstream msg)"
  by (simp add: remote_def)

text \<open>
  C8, as the claim states it, fails: \<open>get_listing\<close> has no \<^verbatim>\<open>try\<close>, so an exception of the
  store during its lookup leaves the handler as it is, mapped to none of the error kinds.
\<close>

theorem get_listing_upstream_escapes:
  "\<not> mapped (fst (get_listing ''L1'' store_down))"
  by (simp add: store_down_def get_listing_def io_defs doc_get_def mapped_def)

text \<open>
  C8, amended. In the six handlers whose body is a \<^verbatim>\<open>try\<close> block (\<open>signup\<close>,
  \<open>create_listing\<close>, \<open>get_all_listings\<close>, \<open>apply_to_listing\<close>,
  \<open>get_applications_for_listing\<close>, \<open>get_student_applications\<close>) every failure of a
  remote service is caught and mapped to 400, with the text of the failure as detail:
  whatever the services do, the outcome is a response or the error 400; when the first
  remote call fails with the message \<open>msg\<close>, the outcome is 400 with detail \<open>msg\<close>; and
  whenever a remote call made by the handler (the one call of the five handlers, either
  of the two calls of \<open>signup\<close>) raises \<open>e\<close>, the outcome is 400 with detail \<^verbatim>\<open>str(e)\<close>.
  The four handlers \<open>get_listing\<close>, \<open>update_listing\<close>, \<open>delete_listing\<close> and
  \<open>delete_application\<close> have no such boundary: without upstream failure their outcome is
  a response or one of 400, 404, 401, 403, and when their first remote call fails (for
  \<open>delete_listing\<close>: once a caller identifier is supplied) the upstream exception itself
  leaves the handler.
\<close>

theorem upstream_failure_boundaries:
  "ok_or_400 (fst (signup u w)) \<and> ok_or_400 (fst (create_listing l w))
   \<and> ok_or_400 (fst (get_all_listings w)) \<and> ok_or_400 (fst (apply_to_listing a w))
   \<and> ok_or_400 (fst (get_applications_for_listing lid w))
   \<and> ok_or_400 (fst (get_student_applications sid w))
   \<and> (\<forall>msg fs. faults w = Some msg # fs \<longrightarrow>
         fst (signup u w) = Inl (HTTPException 400 msg)
         \<and> fst (create_listing l w) = Inl (HTTPException 400 msg)
         \<and> fst (get_all_listings w) = Inl (HTTPException 400 msg)
         \<and> fst (apply_to_listing a w) = Inl (HTTPException 400 msg)
         \<and> fst (get_applications_for_listing lid w) = Inl (HTTPException 400 msg)
         \<and> fst (get_student_applications sid w) = Inl (HTTPException 400 msg))
   \<and> (\<forall>e. fst (create_user (email u) (password u) w) = Inl e \<longrightarrow>
         fst (signup u w) = Inl (HTTPException 400 (str_exn e)))
   \<and> (\<forall>uid w1 e. create_user (email u) (password u) w = (Inr uid, w1)
         \<and> fst (doc_set ''users'' uid
                  [''name'' \<mapsto> Str (name u), ''email'' \<mapsto> Str (email u),
                   ''role'' \<mapsto> Str (role u),
                   ''research_interests'' \<mapsto> StrList (research_interests u)] w1) = Inl e \<longrightarrow>
         fst (signup u w) = Inl (HTTPException 400 (str_exn e)))
   \<and> (\<forall>e. fst (coll_add ''research_listings'' (listing_dict l) w) = Inl e \<longrightarrow>
         fst (create_listing l w) = Inl (HTTPException 400 (str_exn e)))
   \<and> (\<forall>e. fst (coll_stream ''research_listings'' w) = Inl e \<longrightarrow>
         fst (get_all_listings w) = Inl (HTTPException 400 (str_exn e)))
   \<and> (\<forall>e. fst (coll_add ''applications'' (application_dict a) w) = Inl e \<longrightarrow>
         fst (apply_to_listing a w) = Inl (HTTPException 400 (str_exn e)))
   \<and> (\<forall>e. fst (coll_where ''applications'' ''listing_id'' (Str lid) w) = Inl e \<longrightarrow>
         fst (get_applications_for_listing lid w) = Inl (HTTPException 400 (str_exn e)))
   \<and> (\<forall>e. fst (coll_where ''applications'' ''student_id'' (Str sid) w) = Inl e \<longrightarrow>
         fst (get_student_applications sid w) = Inl (HTTPException 400 (str_exn e)))
   \<and> (faults w = [] \<longrightarrow>
         mapped (fst (get_listing lid w)) \<and> mapped (fst (update_listing lid upd w))
         \<and> mapped (fst (delete_listing lid hdr w)) \<and> mapped (fst (delete_application aid w)))
   \<and> (\<forall>msg fs. faults w = Some msg # fs \<longrightarrow>
         fst (get_listing lid w) = Inl (Upstream msg)
         \<and> fst (update_listing lid upd w) = Inl (Upstream msg)
         \<and> fst (delete_application aid w) = Inl (Upstream msg)
         \<and> (hdr \<noteq> None \<and> hdr \<noteq> Some [] \<longrightarrow>
              fst (delete_listing lid hdr w) = Inl (Upstream msg)))"
proof -
  have wrapped: "ok_or_400 (fst (signup u w))" "ok_or_400 (fst (create_listing l w))"
    "ok_or_400 (fst (get_all_listings w))" "ok_or_400 (fst (apply_to_listing a w))"
    "ok_or_400 (fst (get_applications_for_listing lid w))"
    "ok_or_400 (fst (get_student_applications sid w))"
    unfolding signup_def create_listing_def get_all_listings_def apply_to_listing_def
      get_applications_for_listing_def get_student_applications_def
    by (rule io_try_ok_or_400)+
  have each: "\<forall>e. fst (create_user (email u) (password u) w) = Inl e \<longrightarrow>
         fst (signup u w) = Inl (HTTPException 400 (str_exn e))"
    "\<forall>e. fst (coll_add ''research_listings'' (listing_dict l) w) = Inl e \<longrightarrow>
         fst (create_listing l w) = Inl (HTTPException 400 (str_exn e))"
    "\<forall>e. fst (coll_stream ''research_listings'' w) = Inl e \<longrightarrow>
         fst (get_all_listings w) = Inl (HTTPException 400 (str_exn e))"
    "\<forall>e. fst (coll_add ''applications'' (application_dict a) w) = Inl e \<longrightarrow>
         fst (apply_to_listing a w) = Inl (HTTPException 400 (str_exn e))"
    "\<forall>e. fst (coll_where ''applications'' ''listing_id'' (Str lid) w) = Inl e \<longrightarrow>
         fst (get_applications_for_listing lid w) = Inl (HTTPException 400 (str_exn e))"
    "\<forall>e. fst (coll_where ''applications'' ''student_id'' (Str sid) w) = Inl e \<longrightarrow>
         fst (get_student_applications sid w) = Inl (HTTPException 400 (str_exn e))"
    unfolding signup_def create_listing_def get_all_listings_def apply_to_listing_def
      get_applications_for_listing_def get_student_applications_def
    by (blast intro: try_first_call_raises)+
  have second: "\<forall>uid w1 e. create_user (email u) (password u) w = (Inr uid, w1)
         \<and> fst (doc_set ''users'' uid
                  [''name'' \<mapsto> Str (name u), ''email'' \<mapsto> Str (email u),
                   ''role'' \<mapsto> Str (role u),
                   ''research_interests'' \<mapsto> StrList (research_interests u)] w1) = Inl e \<longrightarrow>
         fst (signup u w) = Inl (HTTPException 400 (str_exn e))"
    unfolding signup_def
    by (auto simp: io_try_def io_bind_def io_raise_def split: prod.splits sum.splits)
  have first: "fst (signup u w) = Inl (HTTPException 400 msg)"
    "fst (create_listing l w) = Inl (HTTPException 400 msg)"
    "fst (get_all_listings w) = Inl (HTTPException 400 msg)"
    "fst (apply_to_listing a w) = Inl (HTTPException 400 msg)"
    "fst (get_applications_for_listing lid w) = Inl (HTTPException 400 msg)"
    "fst (get_student_applications sid w) = Inl (HTTPException 400 msg)"
    if "faults w = Some msg # fs" for msg fs
  proof -
    have calls: "fst (create_user (email u) (password u) w) = Inl (Upstream msg)"
      "fst (coll_add ''research_listings'' (listing_dict l) w) = Inl (Upstream msg)"
      "fst (coll_stream ''research_listings'' w) = Inl (Upstream msg)"
      "fst (coll_add ''applications'' (application_dict a) w) = Inl (Upstream msg)"
      "fst (coll_where ''applications'' ''listing_id'' (Str lid) w) = Inl (Upstream msg)"
      "fst (coll_where ''applications'' ''student_id'' (Str sid) w) = Inl (Upstream msg)"
      unfolding create_user_def coll_add_def coll_stream_def coll_where_def
      by (rule remote_first_fault [OF that])+
    show "fst (signup u w) = Inl (HTTPException 400 msg)"
      using each(1) calls(1) by simp
    show "fst (create_listing l w) = Inl (HTTPException 400 msg)"
      using each(2) calls(2) by simp
    show "fst (get_all_listings w) = Inl (HTTPException 400 msg)"
      using each(3) calls(3) by simp
    show "fst (apply_to_listing a w) = Inl (HTTPException 400 msg)"
      using each(4) calls(4) by simp
    show "fst (get_applications_for_listing lid w) = Inl (HTTPException 400 msg)"
      using each(5) calls(5) by simp
    show "fst (get_student_applications sid w) = Inl (HTTPException 400 msg)"
      using each(6) calls(6) by simp
  qed
  have calm: "mapped (fst (get_listing lid w))" "mapped (fst (update_listing lid upd w))"
    "mapped (fst (delete_listing lid hdr w))" "mapped (fst (delete_application aid w))"
    if "faults w = []"
    using that
    by (auto simp: get_listing_def update_listing_def delete_listing_def delete_application_def
          io_defs doc_get_def doc_update_def doc_delete_def mapped_def split: option.splits)
  have down: "fst (get_listing lid w) = Inl (Upstream msg)"
    "fst (update_listing lid upd w) = Inl (Upstream msg)"
    "fst (delete_application aid w) = Inl (Upstream msg)"
    "hdr \<noteq> None \<and> hdr \<noteq> Some [] \<longrightarrow> fst (delete_listing lid hdr w) = Inl (Upstream msg)"
    if "faults w = Some msg # fs" for msg fs
    using that
    by (auto simp: get_listing_def update_listing_def delete_listing_def delete_application_def
          io_defs doc_get_def split: option.splits)
  have wrapped_all: "ok_or_400 (fst (signup u w)) \<and> ok_or_400 (fst (create_listing l w))
   \<and> ok_or_400 (fst (get_all_listings w)) \<and> ok_or_400 (fst (apply_to_listing a w))
   \<and> ok_or_400 (fst (get_applications_for_listing lid w))
   \<and> ok_or_400 (fst (get_student_applications sid w))"
    using wrapped by simp
  have first_all: "\<forall>msg fs. faults w = Some msg # fs \<longrightarrow>
         fst (signup u w) = Inl (HTTPException 400 msg)
         \<and> fst (create_listing l w) = Inl (HTTPException 400 msg)
         \<and> fst (get_all_listings w) = Inl (HTTPException 400 msg)
         \<and> fst (apply_to_listing a w) = Inl (HTTPException 400 msg)
         \<and> fst (get_applications_for_listing lid w) = Inl (HTTPException 400 msg)
         \<and> fst (get_student_applications sid w) = Inl (HTTPException 400 msg)"
    using first by blast
  have calm_all: "faults w = [] \<longrightarrow>
         mapped (fst (get_listing lid w)) \<and> mapped (fst (update_listing lid upd w))
         \<and> mapped (fst (delete_listing lid hdr w)) \<and> mapped (fst (delete_application aid w))"
    using calm by blast
  have down_all: "\<forall>msg fs. faults w = Some msg # fs \<longrightarrow>
         fst (get_listing lid w) = Inl (Upstream msg)
         \<and> fst (update_listing lid upd w) = Inl (Upstream msg)
         \<and> fst (delete_application aid w) = Inl (Upstream msg)
         \<and> (hdr \<noteq> None \<and> hdr \<noteq> Some [] \<longrightarrow>
              fst (delete_listing lid hdr w) = Inl (Upstream msg))"
    using down by blast
  show ?thesis
    by (intro conjI wrapped each second first_all calm_all down_all)
qed

theorem upstream_failure_boundaries_witness:
  "faults store_down = [Some ''UNAVAILABLE'']
   \<and> ok_or_400 (fst (signup new_user store_down))
   \<and> fst (signup new_user store_down) = Inl (HTTPException 400 ''UNAVAILABLE'')
   \<and> fst (create_listing ai_listing store_down) = Inl (HTTPException 400 ''UNAVAILABLE'')
   \<and> fst (get_applications_for_listing ''L1'' store_down)
       = Inl (HTTPException 400 ''UNAVAILABLE'')
   \<and> fst (get_listing ''L1'' store_down) = Inl (Upstream ''UNAVAILABLE'')
   \<and> fst (delete_listing ''L1'' (Some ''u1'') store_down) = Inl (Upstream ''UNAVAILABLE'')
   \<and> faults demo_world = []
   \<and> mapped (fst (get_listing ''L1'' demo_world))"
proof -
  have f: "faults store_down = [Some ''UNAVAILABLE'']" by (simp add: store_down_def)
  have g: "faults demo_world = []" by (simp add: demo_world_def)
  note down = upstream_failure_boundaries
         [of new_user store_down ai_listing ml_application "''L1''" "''u2''" all_null
             "Some ''u1''" "''A1''"]
  note calm = upstream_failure_boundaries
         [of new_user demo_world ai_listing ml_application "''L1''" "''u2''" all_null
             "Some ''u1''" "''A1''"]
  have a: "ok_or_400 (fst (signup new_user store_down))"
    using down by (elim conjE)
  have b: "fst (signup new_user store_down) = Inl (HTTPException 400 ''UNAVAILABLE'')
     \<and> fst (create_listing ai_listing store_down) = Inl (HTTPException 400 ''UNAVAILABLE'')
     \<and> fst (get_applications_for_listing ''L1'' store_down)
         = Inl (HTTPException 400 ''UNAVAILABLE'')"
    using down f by (elim conjE) simp
  have c: "fst (get_listing ''L1'' store_down) = Inl (Upstream ''UNAVAILABLE'')
     \<and> fst (delete_listing ''L1'' (Some ''u1'') store_down) = Inl (Upstream ''UNAVAILABLE'')"
    using down f by (elim conjE) simp
  have d: "mapped (fst (get_listing ''L1'' demo_world))"
    using calm g by (elim conjE) simp
  from a b c d f g show ?thesis by simp
qed

subsection \<open>Create, then get\<close>

text \<open>
  C9. Without upstream failure, when \<open>create_listing\<close> succeeds, its response carries the
  identifier of the new listing, and \<open>get_listing\<close> of that identifier in the state after
  the creation succeeds and returns the five fields of the payload together with the key
  \<open>id\<close> bound to the identifier.
\<close>

theorem create_then_get_listing:
  assumes "faults w = []"
    and "fst (create_listing l w) = Inr r"
  shows "r = Obj [''message'' \<mapsto> Str ''Research listing created'',
                  ''listing_id'' \<mapsto> Str (id_supply w 0)]
    \<and> fst (get_listing (id_supply w 0) (snd (create_listing l w)))
        = Inr (Obj [''id'' \<mapsto> Str (id_supply w 0), ''title'' \<mapsto> Str (title l),
                    ''description'' \<mapsto> Str (description l),
                    ''professor_id'' \<mapsto> Str (professor_id l),
                    ''eligibility'' \<mapsto> StrList (eligibility l), ''tags'' \<mapsto> StrList (tags l)])"
proof -
  have fresh: "id_supply w 0 \<notin> fst ` set (db w ''research_listings'')"
    using assms by (auto simp: create_listing_def io_defs coll_add_def split: if_splits)
  have run: "create_listing l w =
      (Inr (Obj [''message'' \<mapsto> Str ''Research listing created'',
                 ''listing_id'' \<mapsto> Str (id_supply w 0)]),
       w\<lparr>db := (db w)(''research_listings'' :=
              db w ''research_listings'' @ [(id_supply w 0, listing_dict l)]),
         id_supply := (\<lambda>n. id_supply w (Suc n))\<rparr>)"
    using assms(1) fresh by (simp add: create_listing_def io_defs coll_add_def)
  have none: "map_of (db w ''research_listings'') (id_supply w 0) = None"
    using fresh by (simp add: map_of_eq_None_iff)
  have doc: "with_id i (listing_dict l) =
      [''id'' \<mapsto> Str i, ''title'' \<mapsto> Str (title l), ''description'' \<mapsto> Str (description l),
       ''professor_id'' \<mapsto> Str (professor_id l),
       ''eligibility'' \<mapsto> StrList (eligibility l), ''tags'' \<mapsto> StrList (tags l)]" for i
    by (auto simp: with_id_def listing_dict_def map_add_def fun_eq_iff)
  have r: "r = Obj [''message'' \<mapsto> Str ''Research listing created'',
                  ''listing_id'' \<mapsto> Str (id_supply w 0)]"
    using assms(2) by (simp add: run)
  have "fst (get_listing (id_supply w 0) (snd (create_listing l w)))
      = Inr (Obj (with_id (id_supply w 0) (listing_dict l)))"
    using assms(1) none
    by (simp add: run get_listing_def io_defs doc_get_def map_add_def)
  with r show ?thesis by (simp only: doc simp_thms)
qed

theorem create_then_get_listing_witness:
  "faults demo_world = []
   \<and> fst (create_listing ai_listing demo_world)
       = Inr (Obj [''message'' \<mapsto> Str ''Research listing created'', ''listing_id'' \<mapsto> Str ''id''])
   \<and> fst (get_listing ''id'' (snd (create_listing ai_listing demo_world)))
        = Inr (Obj [''id'' \<mapsto> Str ''id'', ''title'' \<mapsto> Str ''AI Research'',
                    ''description'' \<mapsto> Str ''...'', ''professor_id'' \<mapsto> Str ''p1'',
                    ''eligibility'' \<mapsto> StrList [''senior''], ''tags'' \<mapsto> StrList [''ml'']])"
proof -
  have f: "faults demo_world = []" by (simp add: demo_world_def)
  have i: "id_supply demo_world 0 = ''id''" by (simp add: demo_world_def)
  have c: "fst (create_listing ai_listing demo_world)
       = Inr (Obj [''message'' \<mapsto> Str ''Research listing created'', ''listing_id'' \<mapsto> Str ''id''])"
    by (simp add: create_listing_def io_defs coll_add_def demo_world_def)
  from create_then_get_listing [OF f c] f c show ?thesis
    by (simp add: i ai_listing_def)
qed

subsection \<open>The empty caller identifier\<close>

text \<open>
  C10. A \<^verbatim>\<open>user_id\<close> header whose value is the empty string is treated as an absent
  header: for every listing identifier and every state, \<open>delete_listing\<close> raises 401 with
  the same detail, performs no lookup (no remote call: the schedule of outcomes is not
  consumed) and leaves the state unchanged.
\<close>

theorem delete_listing_empty_header:
  "delete_listing lid (Some []) w
     = (Inl (HTTPException 401 ''User ID missing in request headers''), w)
   \<and> delete_listing lid (Some []) w = delete_listing lid None w"
  by (simp add: delete_listing_def io_raise_def)

end
